theory Spec2Isabelle
  imports Complex_Main "HOL-Library.Char_ord" "HOL-Library.List_Lexorder"
    "HOL-Library.Product_Lexorder" "HOL-Library.Multiset" "HOL-Library.Sublist"
begin

section \<open>Call Log Dashboard: the normalizer and the aggregations of \<open>app.py\<close>\<close>

text \<open>
  The program is one Python script built on pandas. The embedding keeps its names and
  its order of steps. Conventions used throughout:
  \<^item> a Python \<open>str\<close> is a \<open>string\<close>, one \<open>char\<close> per code point (code points below 256);
  \<^item> a Python \<open>int\<close> is an \<open>int\<close>;
  \<^item> a missing value (\<open>None\<close>, \<open>NaN\<close>, \<open>NaT\<close>) is \<open>None\<close> of an option type;
  \<^item> a raised exception is \<open>Inl\<close> of a sum type, a returned value is \<open>Inr\<close>;
  \<^item> float arithmetic is carried out over the rationals (rounding is not modelled).
\<close>

datatype py_error = ValueError | KeyError

subsection \<open>Python's \<open>int(str)\<close> and \<open>str.split\<close>\<close>

text \<open>
  \<open>int(s)\<close> in base 10, as CPython's \<open>PyLong_FromString\<close> reads it: leading white space,
  one optional sign, digits in which single underscores may separate digits, trailing
  white space; anything else raises \<open>ValueError\<close>. The interpreter also refuses a text
  with more than \<open>sys.get_int_max_str_digits()\<close> digits (4300 by default, 0 switches the
  check off); that setting belongs to the interpreter, so it is the parameter \<open>maxd\<close>.
\<close>

definition is_space :: "char \<Rightarrow> bool" where
  "is_space c = ((of_char c :: nat) \<in> {9, 10, 11, 12, 13, 32, 133, 160})"

definition is_digit :: "char \<Rightarrow> bool" where
  "is_digit c = (48 \<le> (of_char c :: nat) \<and> (of_char c :: nat) \<le> 57)"

definition digit_of :: "char \<Rightarrow> int" where
  "digit_of c = int (of_char c) - 48"

definition digits_value :: "string \<Rightarrow> int" where
  "digits_value ds = foldl (\<lambda>acc c. 10 * acc + digit_of c) 0 ds"

fun double_underscore :: "string \<Rightarrow> bool" where
  "double_underscore (a # b # cs) =
     ((a = CHR ''_'' \<and> b = CHR ''_'') \<or> double_underscore (b # cs))"
| "double_underscore _ = False"

definition digit_or_underscore :: "char \<Rightarrow> bool" where
  "digit_or_underscore c = (is_digit c \<or> c = CHR ''_'')"

definition scan_digits :: "nat \<Rightarrow> string \<Rightarrow> py_error + int" where
  "scan_digits maxd u =
     (let body = takeWhile digit_or_underscore u;
          rest = dropWhile digit_or_underscore u;
          ds = filter is_digit body
      in if body = [] \<or> hd body = CHR ''_'' \<or> last body = CHR ''_''
            \<or> double_underscore body \<or> \<not> list_all is_space rest
         then Inl ValueError
         else if 0 < maxd \<and> maxd < length ds then Inl ValueError
         else Inr (digits_value ds))"

definition py_int :: "nat \<Rightarrow> string \<Rightarrow> py_error + int" where
  "py_int maxd s =
     (case dropWhile is_space s of
        [] \<Rightarrow> Inl ValueError
      | c # r \<Rightarrow>
          if c = CHR ''+'' then scan_digits maxd r
          else if c = CHR ''-'' then
            (case scan_digits maxd r of Inl e \<Rightarrow> Inl e | Inr v \<Rightarrow> Inr (- v))
          else scan_digits maxd (c # r))"

text \<open>\<open>s.split(sep)\<close> for a one-character separator: always at least one token.\<close>

fun split_sep :: "char \<Rightarrow> string \<Rightarrow> string list" where
  "split_sep sep [] = [[]]"
| "split_sep sep (c # cs) =
     (if c = sep then [] # split_sep sep cs
      else (case split_sep sep cs of
              t # ts \<Rightarrow> (c # t) # ts
            | [] \<Rightarrow> [[c]]))"

subsection \<open>\<open>to_seconds\<close>\<close>

text \<open>
  \<open>h, m, s = map(int, str(x).split(":"))\<close>: the unpacking pulls the lazy \<open>map\<close> one
  token at a time, so \<open>int\<close> runs on the tokens from left to right and the first failure
  stops it; after the third value it asks for a fourth, and finding one is an error too
  (after \<open>int\<close> has run on it).
\<close>

fun unpack3 :: "nat \<Rightarrow> string list \<Rightarrow> py_error + (int \<times> int \<times> int)" where
  "unpack3 maxd (a # b # c # more) =
     (case py_int maxd a of Inl e \<Rightarrow> Inl e | Inr h \<Rightarrow>
      (case py_int maxd b of Inl e \<Rightarrow> Inl e | Inr m \<Rightarrow>
       (case py_int maxd c of Inl e \<Rightarrow> Inl e | Inr s \<Rightarrow>
        (case more of
           [] \<Rightarrow> Inr (h, m, s)
         | d # _ \<Rightarrow> (case py_int maxd d of Inl e \<Rightarrow> Inl e | Inr _ \<Rightarrow> Inl ValueError)))))"
| "unpack3 maxd [a, b] =
     (case py_int maxd a of Inl e \<Rightarrow> Inl e | Inr h \<Rightarrow>
      (case py_int maxd b of Inl e \<Rightarrow> Inl e | Inr m \<Rightarrow> Inl ValueError))"
| "unpack3 maxd [a] = (case py_int maxd a of Inl e \<Rightarrow> Inl e | Inr h \<Rightarrow> Inl ValueError)"
| "unpack3 maxd [] = Inl ValueError"

text \<open>The body of the \<open>try\<close>.\<close>

definition to_seconds_try :: "nat \<Rightarrow> string \<Rightarrow> py_error + int" where
  "to_seconds_try maxd x =
     (case unpack3 maxd (split_sep CHR '':'' x) of
        Inl e \<Rightarrow> Inl e
      | Inr (h, m, s) \<Rightarrow> Inr (h * 3600 + m * 60 + s))"

text \<open>The bare \<open>except:\<close> turns every exception of the body into the value \<open>None\<close>.\<close>

definition to_seconds :: "nat \<Rightarrow> string \<Rightarrow> py_error + int option" where
  "to_seconds maxd x =
     (case to_seconds_try maxd x of Inl e \<Rightarrow> Inr None | Inr v \<Rightarrow> Inr (Some v))"

text \<open>Decimal rendering of a natural number (Python's \<open>str\<close> of a non-negative \<open>int\<close>),
  used to state the round trip of well-formed texts.\<close>

definition digit_char :: "nat \<Rightarrow> char" where
  "digit_char d = char_of (48 + d)"

function show_nat :: "nat \<Rightarrow> string" where
  "show_nat n = (if n < 10 then [digit_char n] else show_nat (n div 10) @ [digit_char (n mod 10)])"
  by pat_completeness auto
termination
  by (relation "measure id") auto

declare show_nat.simps [simp del]

subsection \<open>Timestamps, dates and slot labels\<close>

text \<open>
  A pandas \<open>Timestamp\<close> without time zone is a count of nanoseconds since the epoch; a
  calendar date is the number of its day. \<open>NaT\<close> is \<open>None\<close>.
\<close>

type_synonym timestamp = int

definition ns_per_minute :: int where
  "ns_per_minute = 60000000000"

definition ns_per_hour :: int where
  "ns_per_hour = 60 * ns_per_minute"

definition ns_per_day :: int where
  "ns_per_day = 24 * ns_per_hour"

text \<open>\<open>.dt.date\<close>\<close>

definition dt_date :: "timestamp \<Rightarrow> int" where
  "dt_date t = t div ns_per_day"

text \<open>\<open>.dt.floor(freq)\<close>\<close>

definition dt_floor :: "int \<Rightarrow> timestamp \<Rightarrow> timestamp" where
  "dt_floor freq t = t - t mod freq"

definition hour_of :: "timestamp \<Rightarrow> nat" where
  "hour_of t = nat ((t div ns_per_hour) mod 24)"

definition minute_of :: "timestamp \<Rightarrow> nat" where
  "minute_of t = nat ((t div ns_per_minute) mod 60)"

definition two_digits :: "nat \<Rightarrow> string" where
  "two_digits n = [digit_char (n div 10), digit_char (n mod 10)]"

text \<open>\<open>strftime("%I:%M %p")\<close>: 12-hour clock, zero padded, then AM or PM.\<close>

definition strftime_I_M_p :: "timestamp \<Rightarrow> string" where
  "strftime_I_M_p t =
     two_digits (if hour_of t mod 12 = 0 then 12 else hour_of t mod 12) @ '':'' @
     two_digits (minute_of t) @ '' '' @ (if hour_of t < 12 then ''AM'' else ''PM'')"

text \<open>\<open>pd.date_range(start, end, freq=...)\<close>, both ends included.\<close>

definition date_range :: "timestamp \<Rightarrow> timestamp \<Rightarrow> int \<Rightarrow> timestamp list" where
  "date_range start stop freq =
     map (\<lambda>k. start + int k * freq) [0 ..< nat ((stop - start) div freq + 1)]"

text \<open>A bare clock time such as \<open>"09:30"\<close> is read as that time on the current day
  \<open>today\<close> (a day number).\<close>

definition clock_time :: "int \<Rightarrow> int \<Rightarrow> int \<Rightarrow> timestamp" where
  "clock_time today h m = today * ns_per_day + h * ns_per_hour + m * ns_per_minute"

definition valid_hours :: "int \<Rightarrow> string list" where
  "valid_hours today =
     map strftime_I_M_p
       (date_range (clock_time today 9 30) (clock_time today 18 30) (30 * ns_per_minute))"

subsection \<open>Series helpers\<close>

text \<open>\<open>dropna\<close>, \<open>unique\<close> (first occurrences, in order of appearance), \<open>isin\<close>,
  selection by a boolean mask, \<open>apply\<close> (the first exception of the function ends it).\<close>

definition dropna :: "'a option list \<Rightarrow> 'a option list" where
  "dropna col = filter (\<lambda>c. c \<noteq> None) col"

fun non_null :: "'a option list \<Rightarrow> 'a list" where
  "non_null [] = []"
| "non_null (None # cs) = non_null cs"
| "non_null (Some v # cs) = v # non_null cs"

fun unique_from :: "'a list \<Rightarrow> 'a list \<Rightarrow> 'a list" where
  "unique_from seen [] = []"
| "unique_from seen (x # xs) =
     (if x \<in> set seen then unique_from seen xs else x # unique_from (x # seen) xs)"

definition unique :: "'a list \<Rightarrow> 'a list" where
  "unique xs = unique_from [] xs"

definition isin :: "'a list \<Rightarrow> 'a list \<Rightarrow> bool list" where
  "isin col vals = map (\<lambda>c. c \<in> set vals) col"

definition mask_and :: "bool list \<Rightarrow> bool list \<Rightarrow> bool list" where
  "mask_and m1 m2 = map (\<lambda>(a, b). a \<and> b) (zip m1 m2)"

definition boolean_index :: "'a list \<Rightarrow> bool list \<Rightarrow> 'a list" where
  "boolean_index df flags = map fst (filter snd (zip df flags))"

fun series_apply :: "('a \<Rightarrow> py_error + 'b) \<Rightarrow> 'a list \<Rightarrow> py_error + 'b list" where
  "series_apply f [] = Inr []"
| "series_apply f (x # xs) =
     (case f x of
        Inl e \<Rightarrow> Inl e
      | Inr y \<Rightarrow> (case series_apply f xs of Inl e \<Rightarrow> Inl e | Inr ys \<Rightarrow> Inr (y # ys)))"

text \<open>\<open>astype(str)\<close> on a cell: a missing cell becomes the text \<open>nan\<close>.\<close>

definition astype_str :: "string option \<Rightarrow> string" where
  "astype_str c = (case c of None \<Rightarrow> ''nan'' | Some s \<Rightarrow> s)"

text \<open>
  \<open>groupby(col).size().reset_index(name="count")\<close>: one row per distinct non-null key
  (null keys are dropped), keys in ascending order of \<open>key\<close>, with the number of rows
  of each.
\<close>

definition groupby_size :: "('k \<Rightarrow> 'o::linorder) \<Rightarrow> 'k option list \<Rightarrow> ('k \<times> nat) list" where
  "groupby_size key col =
     map (\<lambda>k. (k, length (filter (\<lambda>c. c = Some k) col)))
       (sort_key key (unique (non_null col)))"

text \<open>\<open>sum()\<close> and \<open>mean()\<close> of a numeric column skip the missing values; the mean of no
  values is \<open>NaN\<close>.\<close>

definition series_sum :: "int option list \<Rightarrow> rat" where
  "series_sum col = of_int (sum_list (non_null col))"

definition series_mean :: "int option list \<Rightarrow> rat option" where
  "series_mean col =
     (if non_null col = [] then None
      else Some (of_int (sum_list (non_null col)) / of_nat (length (non_null col))))"

subsection \<open>The workbook and \<open>load_excel\<close>\<close>

text \<open>
  A sheet as \<open>read_excel(..., header=1)\<close> delivers it: its name, the names of its
  columns, and its rows. A row holds the cells of the five columns the program knows
  (under their names after the renaming) and the cells of all other columns. The cells of
  the two time columns have the type \<open>'c\<close> of whatever Excel stored; the duration cell is
  given by its \<open>str()\<close> text. A cell of a column the sheet does not have is never read.
\<close>

record 'c sheet_row =
  row_direction :: "string option"
  row_start :: "'c option"
  row_end :: "'c option"
  row_duration_str :: "string option"
  row_assigned_to :: "string option"
  row_others :: "string option list"

record 'c sheet =
  sheet_name :: string
  sheet_columns :: "string list"
  sheet_rows :: "'c sheet_row list"

datatype date_value = Day int | SheetName string

record call_record =
  direction :: "string option"
  start :: "timestamp option"
  end_time :: "timestamp option"
  duration_str :: "string option"
  assigned_to :: "string option"
  date :: "date_value option"
  duration_sec :: "int option"
  others :: "string option list"

text \<open>\<open>df.rename(columns={...})\<close> on one column name.\<close>

definition rename_column :: "string \<Rightarrow> string" where
  "rename_column c =
     (if c = ''Call Type'' then ''direction''
      else if c = ''Call Start'' then ''start''
      else if c = ''Call End'' then ''end''
      else if c = ''Total Call Time (H:m:s)'' then ''duration_str''
      else if c = ''Assigned User'' then ''assigned_to''
      else c)"

definition df_columns :: "'c sheet \<Rightarrow> string list" where
  "df_columns sh = map rename_column (sheet_columns sh)"

text \<open>The row as the data frame holds it: a column the sheet lacks has no cell.\<close>

definition frame_row :: "'c sheet \<Rightarrow> 'c sheet_row \<Rightarrow> 'c sheet_row" where
  "frame_row sh r =
     \<lparr> row_direction = (if ''direction'' \<in> set (df_columns sh) then row_direction r else None),
       row_start = (if ''start'' \<in> set (df_columns sh) then row_start r else None),
       row_end = (if ''end'' \<in> set (df_columns sh) then row_end r else None),
       row_duration_str =
         (if ''duration_str'' \<in> set (df_columns sh) then row_duration_str r else None),
       row_assigned_to =
         (if ''assigned_to'' \<in> set (df_columns sh) then row_assigned_to r else None),
       row_others = row_others r \<rparr>"

definition all_na :: "'c sheet_row \<Rightarrow> bool" where
  "all_na r =
     (row_direction r = None \<and> row_start r = None \<and> row_end r = None
      \<and> row_duration_str r = None \<and> row_assigned_to r = None
      \<and> list_all (\<lambda>c. c = None) (row_others r))"

text \<open>\<open>read_excel\<close>, \<open>dropna(how="all")\<close> and \<open>rename\<close>.\<close>

definition read_sheet :: "'c sheet \<Rightarrow> 'c sheet_row list" where
  "read_sheet sh = filter (\<lambda>r. \<not> all_na r) (map (frame_row sh) (sheet_rows sh))"

text \<open>
  \<open>pd.to_datetime(col, errors="coerce")\<close>: pandas' parser is not part of the program, so
  it is the parameter \<open>parse\<close>; it sees the whole column (pandas may infer a format from
  it) and the cell. A missing cell gives \<open>NaT\<close>, and so does a cell the parser refuses.
\<close>

type_synonym 'c parser = "'c option list \<Rightarrow> 'c \<Rightarrow> timestamp option"

definition to_datetime :: "'c parser \<Rightarrow> 'c option list \<Rightarrow> timestamp option list" where
  "to_datetime parse col = map (\<lambda>c. case c of None \<Rightarrow> None | Some v \<Rightarrow> parse col v) col"

text \<open>The \<open>date\<close> column of one sheet (the \<open>if "start" in df.columns\<close> of the loop).\<close>

definition sheet_dates :: "'c parser \<Rightarrow> 'c sheet \<Rightarrow> date_value option list" where
  "sheet_dates parse sh =
     (if ''start'' \<in> set (df_columns sh)
      then map (map_option (\<lambda>t. Day (dt_date t))) (to_datetime parse (map row_start (read_sheet sh)))
      else replicate (length (read_sheet sh)) (Some (SheetName (sheet_name sh))))"

definition load_sheet :: "'c parser \<Rightarrow> 'c sheet \<Rightarrow> ('c sheet_row \<times> date_value option) list" where
  "load_sheet parse sh = zip (read_sheet sh) (sheet_dates parse sh)"

definition make_record ::
  "('c sheet_row \<times> date_value option) \<times> int option \<times> timestamp option \<times> timestamp option
     \<Rightarrow> call_record" where
  "make_record x =
     (case x of ((r, d), sec, st, en) \<Rightarrow>
        \<lparr> direction = row_direction r, start = st, end_time = en,
          duration_str = row_duration_str r, assigned_to = row_assigned_to r,
          date = d, duration_sec = sec, others = row_others r \<rparr>)"

text \<open>
  \<open>load_excel\<close>: \<open>pd.concat\<close> of no frames raises \<open>ValueError\<close>; the concatenated frame
  has a column when some sheet has it, and selecting a column it lacks raises \<open>KeyError\<close>.
\<close>

definition load_excel ::
  "nat \<Rightarrow> 'c parser \<Rightarrow> 'c sheet list \<Rightarrow> py_error + call_record list" where
  "load_excel maxd parse wb =
     (if wb = [] then Inl ValueError
      else
        (let final_df = concat (map (load_sheet parse) wb);
             cols = concat (map df_columns wb)
         in if ''duration_str'' \<notin> set cols then Inl KeyError
            else
              (case series_apply (to_seconds maxd)
                      (map (\<lambda>x. astype_str (row_duration_str (fst x))) final_df) of
                 Inl e \<Rightarrow> Inl e
               | Inr secs \<Rightarrow>
                   if ''start'' \<notin> set cols then Inl KeyError
                   else if ''end'' \<notin> set cols then Inl KeyError
                   else
                     Inr (map make_record
                            (zip final_df
                               (zip secs
                                  (zip (to_datetime parse (map (\<lambda>x. row_start (fst x)) final_df))
                                       (to_datetime parse (map (\<lambda>x. row_end (fst x)) final_df)))))))))"

subsection \<open>The dashboard\<close>

definition assigned_options :: "call_record list \<Rightarrow> string option list" where
  "assigned_options df = unique (dropna (map assigned_to df))"

definition direction_options :: "call_record list \<Rightarrow> string option list" where
  "direction_options df = unique (dropna (map direction df))"

definition filtered_df ::
  "call_record list \<Rightarrow> string option list \<Rightarrow> string option list \<Rightarrow> call_record list" where
  "filtered_df df assigned_filter direction_filter =
     boolean_index df
       (mask_and (isin (map assigned_to df) assigned_filter)
                 (isin (map direction df) direction_filter))"

definition total_calls :: "call_record list \<Rightarrow> nat" where
  "total_calls fdf = length fdf"

definition total_duration :: "call_record list \<Rightarrow> rat" where
  "total_duration fdf = series_sum (map duration_sec fdf) / 60"

text \<open>The result \<open>None\<close> stands for \<open>NaN\<close>.\<close>

definition avg_duration :: "call_record list \<Rightarrow> rat option" where
  "avg_duration fdf =
     (if total_calls fdf > 0 then map_option (\<lambda>m. m / 60) (series_mean (map duration_sec fdf))
      else Some 0)"

text \<open>
  Keys of \<open>groupby("date")\<close>: pandas sorts a column that mixes dates and texts with the
  non-texts first, each class in its own ascending order.
\<close>

definition date_sort_key :: "date_value \<Rightarrow> nat \<times> int \<times> string" where
  "date_sort_key d = (case d of Day n \<Rightarrow> (0, n, []) | SheetName s \<Rightarrow> (1, 0, s))"

definition calls_per_day :: "call_record list \<Rightarrow> (date_value \<times> nat) list" where
  "calls_per_day fdf = groupby_size date_sort_key (map date fdf)"

definition hour_slot :: "call_record \<Rightarrow> string option" where
  "hour_slot r = map_option (\<lambda>t. strftime_I_M_p (dt_floor (30 * ns_per_minute) t)) (start r)"

text \<open>\<open>pd.Categorical(values, categories=...)\<close>: a value outside the categories becomes
  missing; no row is added or moved.\<close>

definition categorical :: "'a list \<Rightarrow> 'a \<Rightarrow> 'a option" where
  "categorical cats v = (if v \<in> set cats then Some v else None)"

definition df_hour :: "int \<Rightarrow> call_record list \<Rightarrow> call_record list" where
  "df_hour today fdf = boolean_index fdf (isin (map hour_slot fdf) (map Some (valid_hours today)))"

definition calls_by_hour :: "int \<Rightarrow> call_record list \<Rightarrow> (string option \<times> nat) list" where
  "calls_by_hour today fdf =
     map (\<lambda>(slot, n). (categorical (valid_hours today) slot, n))
       (groupby_size (\<lambda>s. s) (map hour_slot (df_hour today fdf)))"

text \<open>The three KPI values: number of calls, total minutes, average minutes.\<close>

definition kpis :: "call_record list \<Rightarrow> nat \<times> rat \<times> rat option" where
  "kpis fdf = (total_calls fdf, total_duration fdf, avg_duration fdf)"

text \<open>
  \<open>sort_values(by="duration_sec", ascending=False)\<close> goes through pandas' \<open>nargsort\<close>:
  the missing values are set aside, the others are reversed, sorted ascending by numpy's
  \<open>argsort\<close>, and the result is reversed again; the missing values are put last in
  their original order. The kind of sort is the default \<open>quicksort\<close>, which belongs to
  numpy, so \<open>argsort\<close> is a parameter: it returns the positions of its argument in an
  ascending order of the values.
\<close>

definition nargsort_desc :: "(int list \<Rightarrow> nat list) \<Rightarrow> int option list \<Rightarrow> nat list" where
  "nargsort_desc argsort items =
     (let idx = [0 ..< length items];
          non_nans = rev (non_null items);
          non_nan_idx = rev (filter (\<lambda>i. items ! i \<noteq> None) idx);
          nan_idx = filter (\<lambda>i. items ! i = None) idx;
          indexer = map (\<lambda>j. non_nan_idx ! j) (argsort non_nans)
      in rev indexer @ nan_idx)"

definition sort_values_desc :: "(int list \<Rightarrow> nat list) \<Rightarrow> call_record list \<Rightarrow> call_record list" where
  "sort_values_desc argsort fdf = map (\<lambda>i. fdf ! i) (nargsort_desc argsort (map duration_sec fdf))"

definition top_longest :: "(int list \<Rightarrow> nat list) \<Rightarrow> call_record list \<Rightarrow> call_record list" where
  "top_longest argsort fdf = take 5 (sort_values_desc argsort fdf)"

text \<open>What \<open>argsort\<close> promises for the values \<open>xs\<close>: a permutation of the positions that
  puts the values in ascending order. A stable one keeps equal values in their order.\<close>

definition is_argsort :: "int list \<Rightarrow> nat list \<Rightarrow> bool" where
  "is_argsort xs p = (sort p = [0 ..< length xs] \<and> sorted (map (\<lambda>i. xs ! i) p))"

definition is_stable :: "int list \<Rightarrow> nat list \<Rightarrow> bool" where
  "is_stable xs p =
     (\<forall>i \<in> {..< length p}. \<forall>j \<in> {..< length p}. i < j \<and> xs ! (p ! i) = xs ! (p ! j) \<longrightarrow> p ! i < p ! j)"

text \<open>Two sorts that keep the promise: one stable, one that returns equal values in the
  reverse of their order.\<close>

definition argsort_stable :: "int list \<Rightarrow> nat list" where
  "argsort_stable xs = sort_key (\<lambda>i. xs ! i) [0 ..< length xs]"

definition argsort_reversing_ties :: "int list \<Rightarrow> nat list" where
  "argsort_reversing_ties xs = sort_key (\<lambda>i. (xs ! i, length xs - i)) [0 ..< length xs]"

text \<open>The order the specification describes: descending by duration, missing durations
  last, equal durations in input order.\<close>

definition desc_key :: "call_record \<Rightarrow> nat \<times> int" where
  "desc_key r = (case duration_sec r of None \<Rightarrow> (1, 0) | Some v \<Rightarrow> (0, - v))"

definition topNLongest_spec :: "nat \<Rightarrow> call_record list \<Rightarrow> call_record list" where
  "topNLongest_spec n records = take n (sort_key desc_key records)"

definition desc_nulls_last :: "int option \<Rightarrow> int option \<Rightarrow> bool" where
  "desc_nulls_last a b =
     (case b of None \<Rightarrow> True | Some y \<Rightarrow> (case a of None \<Rightarrow> False | Some x \<Rightarrow> y \<le> x))"

subsection \<open>A sample workbook\<close>

text \<open>
  Cells of the time columns in the examples: a native Excel date-time, or a text that is
  no date. \<open>sample_parse\<close> is pandas' parser on such cells: the first converts as it
  is, the second is refused.
\<close>

datatype excel_time_cell = DateTimeCell timestamp | NotADate string

definition sample_parse :: "excel_time_cell parser" where
  "sample_parse col c = (case c of DateTimeCell t \<Rightarrow> Some t | NotADate s \<Rightarrow> None)"

definition canonical_header :: "string list" where
  "canonical_header =
     [''Call Type'', ''Call Start'', ''Call End'', ''Total Call Time (H:m:s)'', ''Assigned User'']"

definition sample_workbook :: "excel_time_cell sheet list" where
  "sample_workbook =
     [\<lparr> sheet_name = ''Monday'', sheet_columns = canonical_header,
        sheet_rows =
          [\<lparr> row_direction = Some ''Incoming'',
             row_start = Some (DateTimeCell (clock_time 19793 9 45)),
             row_end = Some (DateTimeCell (clock_time 19793 11 15)),
             row_duration_str = Some ''01:30:00'', row_assigned_to = Some ''Asha'',
             row_others = [] \<rparr>,
           \<lparr> row_direction = Some ''Outgoing'',
             row_start = Some (NotADate ''n/a''), row_end = None,
             row_duration_str = Some ''bad'', row_assigned_to = None,
             row_others = [] \<rparr>,
           \<lparr> row_direction = None, row_start = None, row_end = None,
             row_duration_str = None, row_assigned_to = None, row_others = [] \<rparr>,
           \<lparr> row_direction = Some ''Outgoing'',
             row_start = Some (DateTimeCell (clock_time 19793 13 5)),
             row_end = Some (DateTimeCell (clock_time 19793 12 5)),
             row_duration_str = Some ''-1:00:00'', row_assigned_to = Some ''Ravi'',
             row_others = [] \<rparr>] \<rparr>,
      \<lparr> sheet_name = ''Notes'',
        sheet_columns = [''Call Type'', ''Total Call Time (H:m:s)'', ''Assigned User''],
        sheet_rows =
          [\<lparr> row_direction = Some ''Incoming'', row_start = None, row_end = None,
             row_duration_str = Some ''00:45:00'', row_assigned_to = Some ''Asha'',
             row_others = [] \<rparr>] \<rparr>]"

definition sample_call_1 :: call_record where
  "sample_call_1 =
     \<lparr> direction = Some ''Incoming'', start = Some (clock_time 19793 9 45),
       end_time = Some (clock_time 19793 11 15), duration_str = Some ''01:30:00'',
       assigned_to = Some ''Asha'', date = Some (Day 19793), duration_sec = Some 5400,
       others = [] \<rparr>"

definition sample_call_2 :: call_record where
  "sample_call_2 =
     \<lparr> direction = Some ''Outgoing'', start = None, end_time = None,
       duration_str = Some ''bad'', assigned_to = None, date = None, duration_sec = None,
       others = [] \<rparr>"

definition sample_call_3 :: call_record where
  "sample_call_3 =
     \<lparr> direction = Some ''Outgoing'', start = Some (clock_time 19793 13 5),
       end_time = Some (clock_time 19793 12 5), duration_str = Some ''-1:00:00'',
       assigned_to = Some ''Ravi'', date = Some (Day 19793), duration_sec = Some (- 3600),
       others = [] \<rparr>"

definition sample_call_4 :: call_record where
  "sample_call_4 =
     \<lparr> direction = Some ''Incoming'', start = None, end_time = None,
       duration_str = Some ''00:45:00'', assigned_to = Some ''Asha'',
       date = Some (SheetName ''Notes''), duration_sec = Some 2700, others = [] \<rparr>"

text \<open>The records \<open>load_excel\<close> makes of the sample workbook.\<close>

definition sample_calls :: "call_record list" where
  "sample_calls = [sample_call_1, sample_call_2, sample_call_3, sample_call_4]"

text \<open>Eighteen calls of one minute each, told apart by their user.\<close>

definition tied_call :: "nat \<Rightarrow> call_record" where
  "tied_call i =
     \<lparr> direction = Some ''Incoming'', start = None, end_time = None,
       duration_str = Some ''00:01:00'', assigned_to = Some (show_nat i), date = None,
       duration_sec = Some 60, others = [] \<rparr>"

definition tied_calls :: "call_record list" where
  "tied_calls = map tied_call [0 ..< 18]"

section \<open>Properties\<close>

subsection \<open>The duration parser\<close>

lemmas sample_defs =
  sample_calls_def sample_call_1_def sample_call_2_def sample_call_3_def sample_call_4_def

lemma split_sep_not_Nil: "split_sep sep s \<noteq> []"
  by (induction s) (auto split: list.splits)

lemma split_sep_no_sep: "sep \<notin> set a \<Longrightarrow> split_sep sep a = [a]"
  by (induction a) auto

lemma split_sep_append: "sep \<notin> set a \<Longrightarrow> split_sep sep (a @ sep # r) = a # split_sep sep r"
  by (induction a) auto

lemma unpack3_Inr_iff:
  "unpack3 maxd toks = Inr (h, m, s) \<longleftrightarrow>
     (\<exists>a b c. toks = [a, b, c] \<and> py_int maxd a = Inr h \<and> py_int maxd b = Inr m
        \<and> py_int maxd c = Inr s)"
  by (induction maxd toks rule: unpack3.induct) (auto split: sum.splits list.splits)

lemma to_seconds_Inr: "\<exists>r. to_seconds maxd x = Inr r"
  by (simp add: to_seconds_def split: sum.splits)

lemma to_seconds_Some_iff:
  "to_seconds maxd x = Inr (Some v) \<longleftrightarrow>
     (\<exists>a b c h m s. split_sep CHR '':'' x = [a, b, c] \<and> py_int maxd a = Inr h
        \<and> py_int maxd b = Inr m \<and> py_int maxd c = Inr s \<and> v = h * 3600 + m * 60 + s)"
proof -
  have "to_seconds maxd x = Inr (Some v) \<longleftrightarrow>
      (\<exists>h m s. unpack3 maxd (split_sep CHR '':'' x) = Inr (h, m, s) \<and> v = h * 3600 + m * 60 + s)"
    by (auto simp: to_seconds_def to_seconds_try_def split: sum.splits prod.splits)
  then show ?thesis
    by (simp only: unpack3_Inr_iff) blast
qed

lemma to_seconds_None_iff:
  "to_seconds maxd x = Inr None \<longleftrightarrow> (\<forall>v. to_seconds maxd x \<noteq> Inr (Some v))"
  using to_seconds_Inr [of maxd x] by (cases "to_seconds maxd x") auto

lemma py_int_cases: "py_int maxd t = Inl ValueError \<or> (\<exists>v. py_int maxd t = Inr v)"
  by (auto simp: py_int_def scan_digits_def Let_def split: list.splits sum.splits)

lemma digits_value_snoc: "digits_value (ds @ [c]) = 10 * digits_value ds + digit_of c"
  by (simp add: digits_value_def)

lemma digits_value_nonneg: "list_all is_digit ds \<Longrightarrow> 0 \<le> digits_value ds"
  by (induction ds rule: rev_induct) (auto simp: digits_value_snoc digits_value_def is_digit_def digit_of_def)

lemma is_digit_not_space: "is_digit c \<Longrightarrow> \<not> is_space c"
  by (auto simp: is_digit_def is_space_def)

lemma is_digit_not_sign: "is_digit c \<Longrightarrow> c \<noteq> CHR ''+'' \<and> c \<noteq> CHR ''-'' \<and> c \<noteq> CHR ''_'' \<and> c \<noteq> CHR '':''"
  by (auto simp: is_digit_def)

lemma double_underscore_digits: "list_all is_digit ds \<Longrightarrow> \<not> double_underscore ds"
  by (induction ds rule: double_underscore.induct) (auto dest: is_digit_not_sign)

lemma scan_digits_digits:
  assumes "ds \<noteq> []" "list_all is_digit ds"
  shows "scan_digits maxd ds =
           (if 0 < maxd \<and> maxd < length ds then Inl ValueError else Inr (digits_value ds))"
proof -
  have all: "\<forall>x\<in>set ds. digit_or_underscore x"
    using assms(2) by (auto simp: digit_or_underscore_def list_all_iff)
  have tw: "takeWhile digit_or_underscore ds = ds" using all by (simp add: takeWhile_eq_all_conv)
  have dw: "dropWhile digit_or_underscore ds = []" using all by (simp add: dropWhile_eq_Nil_conv)
  have fl: "filter is_digit ds = ds" using assms(2) by (simp add: list_all_iff)
  have l: "last ds \<noteq> CHR ''_''"
    using assms is_digit_not_sign [of "last ds"] by (auto simp: list_all_iff)
  have h: "hd ds \<noteq> CHR ''_''"
    using assms is_digit_not_sign [of "hd ds"] by (cases ds) auto
  show ?thesis
    unfolding scan_digits_def Let_def tw dw fl
    using l h double_underscore_digits [OF assms(2)] assms(1) by simp
qed

lemma scan_digits_nonneg: "scan_digits maxd u = Inr v \<Longrightarrow> 0 \<le> v"
proof -
  assume a: "scan_digits maxd u = Inr v"
  have "0 \<le> digits_value (filter is_digit xs)" for xs
    by (rule digits_value_nonneg) (simp add: list_all_iff)
  with a show ?thesis
    by (auto simp: scan_digits_def Let_def split: if_splits)
qed

lemma py_int_digits:
  assumes "ds \<noteq> []" "list_all is_digit ds"
  shows "py_int maxd ds =
           (if 0 < maxd \<and> maxd < length ds then Inl ValueError else Inr (digits_value ds))"
proof -
  obtain c r where ds: "ds = c # r" using assms(1) by (cases ds) auto
  have c: "is_digit c" using assms(2) ds by simp
  have sp: "dropWhile is_space ds = c # r" using c ds is_digit_not_space by simp
  have sg: "c \<noteq> CHR ''+''" "c \<noteq> CHR ''-''" using c is_digit_not_sign by auto
  have "py_int maxd ds = scan_digits maxd ds"
    unfolding py_int_def sp using sg by (simp add: ds)
  then show ?thesis using scan_digits_digits [OF assms] by simp
qed

lemma py_int_minus_digits:
  assumes "ds \<noteq> []" "list_all is_digit ds"
  shows "py_int maxd (CHR ''-'' # ds) =
           (if 0 < maxd \<and> maxd < length ds then Inl ValueError else Inr (- digits_value ds))"
proof -
  have sp: "dropWhile is_space (CHR ''-'' # ds) = CHR ''-'' # ds" by (simp add: is_space_def)
  show ?thesis
    unfolding py_int_def sp using scan_digits_digits [OF assms, of maxd] by simp
qed

lemma py_int_no_minus_nonneg:
  assumes "py_int maxd t = Inr v" "CHR ''-'' \<notin> set t"
  shows "0 \<le> v"
proof (cases "dropWhile is_space t")
  case Nil
  with assms(1) show ?thesis by (simp add: py_int_def)
next
  case (Cons c r)
  have "c \<in> set t" using Cons set_dropWhileD [of c is_space t] by simp
  then have "c \<noteq> CHR ''-''" using assms(2) by auto
  with assms(1) Cons show ?thesis
    by (auto simp: py_int_def dest: scan_digits_nonneg split: if_splits)
qed

lemma show_nat_digits: "list_all is_digit (show_nat n)"
proof (induction n rule: show_nat.induct)
  case (1 n)
  have d: "is_digit (digit_char k)" if "k < 10" for k
    using that by (simp add: is_digit_def digit_char_def)
  show ?case
  proof (cases "n < 10")
    case True
    then show ?thesis by (subst show_nat.simps) (simp add: d)
  next
    case False
    with 1 show ?thesis by (subst show_nat.simps) (simp add: d)
  qed
qed

lemma show_nat_not_Nil: "show_nat n \<noteq> []"
  by (subst show_nat.simps) simp

lemma digits_value_show_nat: "digits_value (show_nat n) = int n"
proof (induction n rule: show_nat.induct)
  case (1 n)
  have d: "digit_of (digit_char k) = int k" if "k < 10" for k
    using that by (simp add: digit_of_def digit_char_def)
  show ?case
  proof (cases "n < 10")
    case True
    then show ?thesis by (subst show_nat.simps) (simp add: d digits_value_def)
  next
    case False
    then have "digits_value (show_nat (n div 10)) = int (n div 10)" by (rule 1)
    moreover have "10 * int (n div 10) + int (n mod 10) = int n" by presburger
    ultimately show ?thesis using False
      by (subst show_nat.simps) (simp add: d digits_value_snoc)
  qed
qed

lemma show_nat_no_colon: "CHR '':'' \<notin> set (show_nat n)"
  using show_nat_digits [of n] is_digit_not_sign by (auto simp: list_all_iff)

lemma to_seconds_wrong_count:
  "length (split_sep CHR '':'' x) \<noteq> 3 \<Longrightarrow> to_seconds maxd x = Inr None"
  unfolding to_seconds_None_iff to_seconds_Some_iff by auto

lemma to_seconds_bad_component:
  "t \<in> set (split_sep CHR '':'' x) \<Longrightarrow> py_int maxd t = Inl e \<Longrightarrow> to_seconds maxd x = Inr None"
  unfolding to_seconds_None_iff to_seconds_Some_iff by auto

lemma split_sep_show_nat3:
  "split_sep CHR '':'' (show_nat H @ '':'' @ show_nat M @ '':'' @ show_nat S) =
     [show_nat H, show_nat M, show_nat S]"
  by (simp add: split_sep_append split_sep_no_sep show_nat_no_colon)

lemma py_int_show_nat:
  "maxd = 0 \<or> length (show_nat n) \<le> maxd \<Longrightarrow> py_int maxd (show_nat n) = Inr (int n)"
  by (auto simp: py_int_digits [OF show_nat_not_Nil show_nat_digits] digits_value_show_nat)

lemma to_seconds_show_nat:
  assumes "maxd = 0 \<or> (length (show_nat H) \<le> maxd \<and> length (show_nat M) \<le> maxd
             \<and> length (show_nat S) \<le> maxd)"
  shows "to_seconds maxd (show_nat H @ '':'' @ show_nat M @ '':'' @ show_nat S) =
           Inr (Some (int H * 3600 + int M * 60 + int S))"
proof -
  have "py_int maxd (show_nat H) = Inr (int H)" "py_int maxd (show_nat M) = Inr (int M)"
    "py_int maxd (show_nat S) = Inr (int S)"
    using assms by (auto intro: py_int_show_nat)
  then show ?thesis
    unfolding to_seconds_Some_iff split_sep_show_nat3 by simp
qed

text \<open>
  Claim C3. \<open>to_seconds\<close> is total and never raises: it always returns a value, and that
  value is \<open>H * 3600 + M * 60 + S\<close> exactly when the text splits at \<open>:\<close> into three tokens
  that \<open>int\<close> converts to \<open>H\<close>, \<open>M\<close> and \<open>S\<close>. A text with another number of tokens, a
  text with a token that \<open>int\<close> refuses, the empty text and the text \<open>nan\<close> of a missing
  cell all give \<open>None\<close>. Three decimal numbers joined by colons are such a well-formed
  text (each within the interpreter's digit limit, when it has one) and give back their
  value.
\<close>

theorem to_seconds_total_parse:
  "(\<exists>r. to_seconds maxd x = Inr r) \<and>
   (\<forall>a b c h m s. split_sep CHR '':'' x = [a, b, c] \<and> py_int maxd a = Inr h
        \<and> py_int maxd b = Inr m \<and> py_int maxd c = Inr s
      \<longrightarrow> to_seconds maxd x = Inr (Some (h * 3600 + m * 60 + s))) \<and>
   (length (split_sep CHR '':'' x) \<noteq> 3 \<longrightarrow> to_seconds maxd x = Inr None) \<and>
   ((\<exists>t \<in> set (split_sep CHR '':'' x). \<exists>e. py_int maxd t = Inl e)
      \<longrightarrow> to_seconds maxd x = Inr None) \<and>
   to_seconds maxd [] = Inr None \<and>
   to_seconds maxd (astype_str None) = Inr None \<and>
   (\<forall>H M S. maxd = 0 \<or> (length (show_nat H) \<le> maxd \<and> length (show_nat M) \<le> maxd
        \<and> length (show_nat S) \<le> maxd)
      \<longrightarrow> to_seconds maxd (show_nat H @ '':'' @ show_nat M @ '':'' @ show_nat S) =
            Inr (Some (int H * 3600 + int M * 60 + int S)))"
proof (intro conjI allI impI)
  show "\<exists>r. to_seconds maxd x = Inr r" by (rule to_seconds_Inr)
next
  fix a b c h m s
  assume "split_sep CHR '':'' x = [a, b, c] \<and> py_int maxd a = Inr h
        \<and> py_int maxd b = Inr m \<and> py_int maxd c = Inr s"
  then show "to_seconds maxd x = Inr (Some (h * 3600 + m * 60 + s))"
    unfolding to_seconds_Some_iff by blast
next
  assume "length (split_sep CHR '':'' x) \<noteq> 3"
  then show "to_seconds maxd x = Inr None" by (rule to_seconds_wrong_count)
next
  assume "\<exists>t \<in> set (split_sep CHR '':'' x). \<exists>e. py_int maxd t = Inl e"
  then show "to_seconds maxd x = Inr None" by (blast intro: to_seconds_bad_component)
next
  show "to_seconds maxd [] = Inr None" by (rule to_seconds_wrong_count) simp
next
  show "to_seconds maxd (astype_str None) = Inr None"
    by (rule to_seconds_wrong_count) (simp add: astype_str_def)
next
  fix H M S
  assume "maxd = 0 \<or> (length (show_nat H) \<le> maxd \<and> length (show_nat M) \<le> maxd
        \<and> length (show_nat S) \<le> maxd)"
  then show "to_seconds maxd (show_nat H @ '':'' @ show_nat M @ '':'' @ show_nat S) =
            Inr (Some (int H * 3600 + int M * 60 + int S))"
    by (rule to_seconds_show_nat)
qed

theorem to_seconds_total_parse_witness:
  "to_seconds 4300 ''01:30:00'' = Inr (Some 5400) \<and>
   to_seconds 4300 ''1:2'' = Inr None \<and>
   to_seconds 4300 ''abc'' = Inr None \<and>
   to_seconds 4300 (show_nat 1 @ '':'' @ show_nat 30 @ '':'' @ show_nat 0) = Inr (Some 5400)"
proof -
  have w: "split_sep CHR '':'' ''01:30:00'' = [''01'', ''30'', ''00''] \<and>
      py_int 4300 ''01'' = Inr 1 \<and> py_int 4300 ''30'' = Inr 30 \<and> py_int 4300 ''00'' = Inr 0"
    by code_simp
  have "to_seconds 4300 ''01:30:00'' = Inr (Some (1 * 3600 + 30 * 60 + 0))"
    using to_seconds_total_parse [of 4300 "''01:30:00''"] w by blast
  moreover have "length (split_sep CHR '':'' ''1:2'') \<noteq> 3" by simp
  then have "to_seconds 4300 ''1:2'' = Inr None"
    using to_seconds_total_parse [of 4300 "''1:2''"] by blast
  moreover have "''abc'' \<in> set (split_sep CHR '':'' ''abc'') \<and> py_int 4300 ''abc'' = Inl ValueError"
    by code_simp
  then have "to_seconds 4300 ''abc'' = Inr None"
    using to_seconds_total_parse [of 4300 "''abc''"] by blast
  moreover have "length (show_nat 1) \<le> 4300 \<and> length (show_nat 30) \<le> 4300
      \<and> length (show_nat 0) \<le> 4300"
    by code_simp
  then have "to_seconds 4300 (show_nat 1 @ '':'' @ show_nat 30 @ '':'' @ show_nat 0) =
      Inr (Some (int 1 * 3600 + int 30 * 60 + int 0))"
    using to_seconds_total_parse [of 4300 x] by blast
  ultimately show ?thesis by simp
qed

subsection \<open>Filtering\<close>

lemma boolean_index_map: "boolean_index df (map P df) = filter P df"
  by (induction df) (auto simp: boolean_index_def)

lemma mask_and_map: "mask_and (map f xs) (map g xs) = map (\<lambda>x. f x \<and> g x) xs"
  by (induction xs) (auto simp: mask_and_def)

lemma isin_map: "isin (map f xs) vals = map (\<lambda>x. f x \<in> set vals) xs"
  by (simp add: isin_def)

lemma filtered_df_filter:
  "filtered_df df af dfl = filter (\<lambda>r. assigned_to r \<in> set af \<and> direction r \<in> set dfl) df"
  by (simp add: filtered_df_def isin_map mask_and_map boolean_index_map)

lemma set_unique_from: "set (unique_from seen xs) = set xs - set seen"
  by (induction seen xs rule: unique_from.induct) auto

lemma distinct_unique_from: "distinct (unique_from seen xs)"
  by (induction seen xs rule: unique_from.induct) (auto simp: set_unique_from)

lemma set_unique: "set (unique xs) = set xs"
  by (simp add: unique_def set_unique_from)

lemma distinct_unique: "distinct (unique xs)"
  by (simp add: unique_def distinct_unique_from)

lemma set_dropna: "set (dropna col) = set col - {None}"
  by (auto simp: dropna_def)

lemma options_set:
  "set (assigned_options df) = assigned_to ` set df - {None}"
  "set (direction_options df) = direction ` set df - {None}"
  by (simp_all add: assigned_options_def direction_options_def set_unique set_dropna)

text \<open>
  Claim C7. \<open>filtered_df\<close> keeps exactly the records whose \<open>assigned_to\<close> is among the
  allowed users and whose \<open>direction\<close> is among the allowed directions, in input order. A
  record with a missing \<open>assigned_to\<close> or \<open>direction\<close> is kept only if the missing value
  is itself among the allowed values. The default lists (the options of the two
  selectors) are the distinct values present, never the missing value, so the default
  filter keeps the records that have both.
\<close>

theorem filtered_df_keeps:
  "filtered_df df af dfl = filter (\<lambda>r. assigned_to r \<in> set af \<and> direction r \<in> set dfl) df \<and>
   subseq (filtered_df df af dfl) df \<and>
   (\<forall>r \<in> set (filtered_df df af dfl).
      (assigned_to r = None \<longrightarrow> None \<in> set af) \<and> (direction r = None \<longrightarrow> None \<in> set dfl)) \<and>
   None \<notin> set (assigned_options df) \<and> None \<notin> set (direction_options df) \<and>
   set (assigned_options df) = assigned_to ` set df - {None} \<and>
   set (direction_options df) = direction ` set df - {None} \<and>
   distinct (assigned_options df) \<and> distinct (direction_options df) \<and>
   filtered_df df (assigned_options df) (direction_options df) =
     filter (\<lambda>r. assigned_to r \<noteq> None \<and> direction r \<noteq> None) df"
proof (intro conjI)
  show "filtered_df df af dfl = filter (\<lambda>r. assigned_to r \<in> set af \<and> direction r \<in> set dfl) df"
    by (rule filtered_df_filter)
  show "subseq (filtered_df df af dfl) df"
    by (simp add: filtered_df_filter)
  show "\<forall>r \<in> set (filtered_df df af dfl).
      (assigned_to r = None \<longrightarrow> None \<in> set af) \<and> (direction r = None \<longrightarrow> None \<in> set dfl)"
    by (auto simp: filtered_df_filter)
  show "None \<notin> set (assigned_options df)" "None \<notin> set (direction_options df)"
    by (simp_all add: options_set)
  show "set (assigned_options df) = assigned_to ` set df - {None}"
    "set (direction_options df) = direction ` set df - {None}"
    by (rule options_set)+
  show "distinct (assigned_options df)" "distinct (direction_options df)"
    by (simp_all add: assigned_options_def direction_options_def distinct_unique)
  show "filtered_df df (assigned_options df) (direction_options df) =
     filter (\<lambda>r. assigned_to r \<noteq> None \<and> direction r \<noteq> None) df"
    unfolding filtered_df_filter by (rule filter_cong) (auto simp: options_set)
qed

theorem filtered_df_keeps_witness:
  "filtered_df sample_calls [Some ''Asha'', Some ''Ravi''] [Some ''Incoming'', Some ''Outgoing''] =
     [sample_call_1, sample_call_3, sample_call_4] \<and>
   assigned_to (sample_call_2) = None \<and>
   sample_call_2 \<notin> set (filtered_df sample_calls [Some ''Asha'', Some ''Ravi'']
                                [Some ''Incoming'', Some ''Outgoing'']) \<and>
   sample_call_2 \<in> set (filtered_df sample_calls [None] [Some ''Outgoing'']) \<and>
   assigned_options sample_calls = [Some ''Asha'', Some ''Ravi'']"
proof -
  have a: "assigned_to (sample_call_2) = None" by (simp add: sample_defs)
  have n: "None \<notin> set [Some ''Asha'', Some ''Ravi'']" by simp
  have "sample_call_2 \<notin> set (filtered_df sample_calls [Some ''Asha'', Some ''Ravi'']
                                [Some ''Incoming'', Some ''Outgoing''])"
    using filtered_df_keeps [of sample_calls "[Some ''Asha'', Some ''Ravi'']"
        "[Some ''Incoming'', Some ''Outgoing'']"] a n by blast
  moreover have "filtered_df sample_calls [Some ''Asha'', Some ''Ravi'']
      [Some ''Incoming'', Some ''Outgoing''] = [sample_call_1, sample_call_3, sample_call_4]"
    by code_simp
  moreover have "sample_call_2 \<in> set (filtered_df sample_calls [None] [Some ''Outgoing''])"
    by code_simp
  moreover have "assigned_options sample_calls = [Some ''Asha'', Some ''Ravi'']"
    by code_simp
  ultimately show ?thesis using a by simp
qed

text \<open>
  Claim C8. Filtering is idempotent: filtering the filtered records again with the same
  two lists changes nothing.
\<close>

theorem filtered_df_idempotent:
  "filtered_df (filtered_df df af dfl) af dfl = filtered_df df af dfl"
  by (simp add: filtered_df_filter)

subsection \<open>The KPIs\<close>

lemma series_empty: "series_sum [] = 0" "series_mean [] = None"
  by (simp_all add: series_sum_def series_mean_def)

text \<open>
  Claim C9. With no records the count is 0, the total minutes are 0 and the average is 0
  (the guard on the count returns 0 instead of dividing).
\<close>

theorem kpis_empty:
  "kpis [] = (0, 0, Some 0) \<and> total_calls [] = 0 \<and> total_duration [] = 0 \<and> avg_duration [] = Some 0"
  by (simp add: kpis_def total_calls_def total_duration_def avg_duration_def series_empty)

lemma length_non_null: "length (non_null col) = length (filter (\<lambda>c. c \<noteq> None) col)"
  by (induction col rule: non_null.induct) auto

lemma set_non_null: "set (non_null col) = {v. Some v \<in> set col}"
  by (induction col rule: non_null.induct) auto

lemma non_null_Nil_iff: "non_null col = [] \<longleftrightarrow> (\<forall>c \<in> set col. c = None)"
  by (induction col rule: non_null.induct) auto

text \<open>
  Claim C1, as stated, fails: \<open>mean()\<close> skips the missing durations in the denominator
  too. With the durations 5400 and missing, the average is 90 minutes, not the 45 that
  dividing by the number of records would give.
\<close>

theorem avg_duration_total_count_counterexample:
  "0 < total_calls ([sample_call_1, sample_call_2]) \<and>
   map duration_sec ([sample_call_1, sample_call_2]) = [Some 5400, None] \<and>
   avg_duration ([sample_call_1, sample_call_2]) = Some 90 \<and>
   avg_duration ([sample_call_1, sample_call_2]) \<noteq>
     Some (series_sum (map duration_sec ([sample_call_1, sample_call_2]))
             / of_nat (total_calls ([sample_call_1, sample_call_2])) / 60)"
  by (simp add: sample_defs total_calls_def avg_duration_def series_mean_def series_sum_def)

text \<open>
  Claim C1, amended. When some record has a duration, \<open>avg_duration\<close> is the sum of the
  durations that are present divided by the number of records that have one, in minutes;
  when there are records and none has a duration, it is \<open>NaN\<close>.
\<close>

theorem avg_duration_non_null_count:
  "((\<exists>r \<in> set fdf. duration_sec r \<noteq> None) \<longrightarrow>
      avg_duration fdf =
        Some (of_int (sum_list (non_null (map duration_sec fdf)))
                / of_nat (length (filter (\<lambda>r. duration_sec r \<noteq> None) fdf)) / 60)) \<and>
   (fdf \<noteq> [] \<and> (\<forall>r \<in> set fdf. duration_sec r = None) \<longrightarrow> avg_duration fdf = None)"
proof -
  have "length (non_null (map duration_sec fdf)) = length (filter (\<lambda>r. duration_sec r \<noteq> None) fdf)"
    by (simp add: length_non_null filter_map comp_def)
  moreover have "non_null (map duration_sec fdf) \<noteq> [] \<Longrightarrow> fdf \<noteq> []" by auto
  moreover have "non_null (map duration_sec fdf) = [] \<longleftrightarrow> (\<forall>r \<in> set fdf. duration_sec r = None)"
    by (simp add: non_null_Nil_iff)
  ultimately show ?thesis
    by (auto simp: avg_duration_def total_calls_def series_mean_def)
qed

theorem avg_duration_non_null_count_witness:
  "avg_duration ([sample_call_1, sample_call_2]) = Some 90 \<and> avg_duration [sample_call_2] = None"
proof -
  have "\<exists>r \<in> set ([sample_call_1, sample_call_2]). duration_sec r \<noteq> None"
    by (simp add: sample_defs)
  then have "avg_duration ([sample_call_1, sample_call_2]) =
      Some (of_int (sum_list (non_null (map duration_sec ([sample_call_1, sample_call_2]))))
              / of_nat (length (filter (\<lambda>r. duration_sec r \<noteq> None) ([sample_call_1, sample_call_2]))) / 60)"
    using avg_duration_non_null_count [of "[sample_call_1, sample_call_2]"] by blast
  moreover have "[sample_call_2] \<noteq> [] \<and> (\<forall>r \<in> set [sample_call_2]. duration_sec r = None)"
    by (simp add: sample_defs)
  then have "avg_duration [sample_call_2] = None"
    using avg_duration_non_null_count [of "[sample_call_2]"] by blast
  ultimately show ?thesis by (simp add: sample_defs)
qed

subsection \<open>Grouping and counting\<close>

lemma length_filter_disj:
  "(\<And>x. x \<in> set xs \<Longrightarrow> \<not> (P x \<and> Q x)) \<Longrightarrow>
   length (filter P xs) + length (filter Q xs) = length (filter (\<lambda>x. P x \<or> Q x) xs)"
  by (induction xs) auto

lemma sum_counts_distinct:
  "distinct ks \<Longrightarrow>
   sum_list (map (\<lambda>k. length (filter (\<lambda>c. c = Some k) col)) ks) =
     length (filter (\<lambda>c. c \<in> Some ` set ks) col)"
proof (induction ks)
  case Nil
  then show ?case by simp
next
  case (Cons k ks)
  let ?f = "\<lambda>k. length (filter (\<lambda>c. c = Some k) col)"
  have IH: "sum_list (map ?f ks) = length (filter (\<lambda>c. c \<in> Some ` set ks) col)"
    using Cons by simp
  have disj: "?f k + length (filter (\<lambda>c. c \<in> Some ` set ks) col) =
      length (filter (\<lambda>c. c = Some k \<or> c \<in> Some ` set ks) col)"
  proof (rule length_filter_disj)
    fix x assume "x \<in> set col"
    show "\<not> (x = Some k \<and> x \<in> Some ` set ks)" using Cons.prems by auto
  qed
  have eq: "filter (\<lambda>c. c = Some k \<or> c \<in> Some ` set ks) col =
      filter (\<lambda>c. c \<in> Some ` set (k # ks)) col"
    by (rule filter_cong) auto
  have "sum_list (map ?f (k # ks)) = ?f k + sum_list (map ?f ks)" by simp
  also have "\<dots> = ?f k + length (filter (\<lambda>c. c \<in> Some ` set ks) col)"
    by (simp only: IH)
  also have "\<dots> = length (filter (\<lambda>c. c = Some k \<or> c \<in> Some ` set ks) col)"
    by (rule disj)
  also have "\<dots> = length (filter (\<lambda>c. c \<in> Some ` set (k # ks)) col)"
    by (simp only: eq)
  finally show ?case .
qed

lemma groupby_keys:
  "distinct (map fst (groupby_size key col))"
  "set (map fst (groupby_size key col)) = {k. Some k \<in> set col}"
  by (simp_all add: groupby_size_def comp_def distinct_unique set_unique set_non_null)

lemma groupby_count:
  assumes "(k, n) \<in> set (groupby_size key col)"
  shows "n = length (filter (\<lambda>c. c = Some k) col) \<and> 0 < n"
proof -
  from assms have n: "n = length (filter (\<lambda>c. c = Some k) col)"
    and k: "k \<in> set (non_null col)"
    by (auto simp: groupby_size_def set_unique)
  from k have "Some k \<in> set (filter (\<lambda>c. c = Some k) col)"
    by (simp add: set_non_null)
  then have "0 < length (filter (\<lambda>c. c = Some k) col)"
    by (rule length_pos_if_in_set)
  with n show ?thesis by simp
qed

lemma groupby_sum:
  "sum_list (map snd (groupby_size key col)) = length (filter (\<lambda>c. c \<noteq> None) col)"
proof -
  let ?ks = "sort_key key (unique (non_null col))"
  have d: "distinct ?ks" by (simp add: distinct_unique)
  have s: "set ?ks = {k. Some k \<in> set col}" by (simp add: set_unique set_non_null)
  have "sum_list (map snd (groupby_size key col)) =
      sum_list (map (\<lambda>k. length (filter (\<lambda>c. c = Some k) col)) ?ks)"
    by (simp add: groupby_size_def comp_def)
  also have "\<dots> = length (filter (\<lambda>c. c \<in> Some ` set ?ks) col)"
    by (rule sum_counts_distinct [OF d])
  also have "filter (\<lambda>c. c \<in> Some ` set ?ks) col = filter (\<lambda>c. c \<noteq> None) col"
    unfolding s by (rule filter_cong) auto
  finally show ?thesis .
qed

lemma groupby_sorted: "sorted (map (\<lambda>x. key (fst x)) (groupby_size key col))"
  by (simp add: groupby_size_def comp_def)

subsection \<open>The slot labels\<close>

lemma hour_of_day_shift: "hour_of (d * ns_per_day + t) = hour_of t"
proof -
  have "(d * ns_per_day + t) div ns_per_hour = d * 24 + t div ns_per_hour"
    by (simp add: ns_per_day_def ns_per_hour_def ns_per_minute_def)
  then show ?thesis by (simp add: hour_of_def)
qed

lemma minute_of_day_shift: "minute_of (d * ns_per_day + t) = minute_of t"
proof -
  have "(d * ns_per_day + t) div ns_per_minute = d * 1440 + t div ns_per_minute"
    by (simp add: ns_per_day_def ns_per_hour_def ns_per_minute_def)
  moreover have "(d * 1440 + x) mod 60 = x mod 60" for x :: int
  proof -
    have "d * 1440 + x = x + 60 * (d * 24)" by simp
    then show ?thesis by (simp only: mod_mult_self2)
  qed
  ultimately show ?thesis by (simp add: minute_of_def)
qed

lemma strftime_day_shift: "strftime_I_M_p (d * ns_per_day + t) = strftime_I_M_p t"
  by (simp add: strftime_I_M_p_def hour_of_day_shift minute_of_day_shift)

lemma valid_hours_today: "valid_hours today = valid_hours 0"
proof -
  have c: "clock_time today h m = today * ns_per_day + clock_time 0 h m" for h m
    by (simp add: clock_time_def)
  have n: "clock_time today 18 30 - clock_time today 9 30 = clock_time 0 18 30 - clock_time 0 9 30"
    by (simp add: c)
  have s: "strftime_I_M_p (clock_time today 9 30 + x) = strftime_I_M_p (clock_time 0 9 30 + x)" for x
    using strftime_day_shift [of today "clock_time 0 9 30 + x"] by (simp add: c add.assoc)
  show ?thesis
    unfolding valid_hours_def date_range_def n by (simp add: s)
qed

lemma valid_hours_0:
  "valid_hours 0 =
     [''09:30 AM'', ''10:00 AM'', ''10:30 AM'', ''11:00 AM'', ''11:30 AM'',
      ''12:00 PM'', ''12:30 PM'', ''01:00 PM'', ''01:30 PM'', ''02:00 PM'',
      ''02:30 PM'', ''03:00 PM'', ''03:30 PM'', ''04:00 PM'', ''04:30 PM'',
      ''05:00 PM'', ''05:30 PM'', ''06:00 PM'', ''06:30 PM'']"
  by code_simp

lemma length_valid_hours: "length (valid_hours today) = 19"
  by (subst valid_hours_today) (simp add: valid_hours_0)

subsection \<open>Calls per day\<close>

lemma length_filter_map_eq: "length (filter P (map f xs)) = length (filter (\<lambda>x. P (f x)) xs)"
  by (induction xs) auto

lemma sample_calls_loaded: "load_excel 4300 sample_parse sample_workbook = Inr sample_calls"
  by code_simp

text \<open>
  Claim C10. \<open>groupby("date")\<close> leaves out the records whose date is missing: the counts
  of \<open>calls_per_day\<close> add up to the number of records that have a date, one row per
  distinct date. That can be less than the number of records: in the sample workbook a
  start cell that is no date, in a sheet with a start column, gives a record without a
  date, and the counts add up to 3 for 4 records.
\<close>

theorem calls_per_day_drops_null_dates:
  "sum_list (map snd (calls_per_day fdf)) = length (filter (\<lambda>r. date r \<noteq> None) fdf) \<and>
   length (filter (\<lambda>r. date r \<noteq> None) fdf) \<le> length fdf \<and>
   set (map fst (calls_per_day fdf)) = {d. Some d \<in> date ` set fdf} \<and>
   distinct (map fst (calls_per_day fdf)) \<and>
   load_excel 4300 sample_parse sample_workbook = Inr sample_calls \<and>
   date (sample_call_2) = None \<and>
   sum_list (map snd (calls_per_day sample_calls)) = 3 \<and> length sample_calls = 4"
proof (intro conjI)
  show "sum_list (map snd (calls_per_day fdf)) = length (filter (\<lambda>r. date r \<noteq> None) fdf)"
    unfolding calls_per_day_def groupby_sum by (rule length_filter_map_eq)
  show "length (filter (\<lambda>r. date r \<noteq> None) fdf) \<le> length fdf"
    by (rule length_filter_le)
  show "set (map fst (calls_per_day fdf)) = {d. Some d \<in> date ` set fdf}"
    using groupby_keys(2) [of date_sort_key "map date fdf"] by (simp add: calls_per_day_def)
  show "distinct (map fst (calls_per_day fdf))"
    unfolding calls_per_day_def by (rule groupby_keys(1))
  show "load_excel 4300 sample_parse sample_workbook = Inr sample_calls"
    by (rule sample_calls_loaded)
  show "date (sample_call_2) = None" by (simp add: sample_defs)
  show "sum_list (map snd (calls_per_day sample_calls)) = 3" by code_simp
  show "length sample_calls = 4" by (simp add: sample_defs)
qed

end
